theory Spec2Isabelle
  imports Main "HOL-Library.Word"
begin

section \<open>Data model of package timeout (src/timeout.go)\<close>

text \<open>
  \<^verbatim>\<open>os.Signal\<close> values. \<^verbatim>\<open>os.Interrupt\<close> and \<^verbatim>\<open>syscall.SIGTERM\<close> are the two
  the package names itself; any other signal is kept by its number.
\<close>

datatype os_Signal = os_Interrupt | SIGTERM | SIGKILL | SignalNo nat

text \<open>
  \<^verbatim>\<open>type Timeout struct\<close>. \<^verbatim>\<open>time.Duration\<close> is an int64 count of nanoseconds, so both
  durations are 64-bit words read as signed. A nil \<^verbatim>\<open>Signal\<close> is \<open>None\<close>. The \<^verbatim>\<open>Cmd\<close>
  pointer is the child process itself; it lives in the environment of the model.
\<close>

record Timeout =
  Duration :: "64 word"
  KillAfter :: "64 word"
  Signal :: "os_Signal option"
  Foreground :: bool

text \<open>\<^verbatim>\<open>func init()\<close>: the value stored in \<^verbatim>\<open>defaultSignal\<close>, by \<^verbatim>\<open>runtime.GOOS\<close>.\<close>

definition defaultSignal :: "string \<Rightarrow> os_Signal" where
  "defaultSignal GOOS = (if GOOS = ''windows'' then os_Interrupt else SIGTERM)"

definition exitNormal :: int where "exitNormal = 0"
definition exitTimedOut :: int where "exitTimedOut = 124"
definition exitUnknownErr :: int where "exitUnknownErr = 125"
definition exitKilled :: int where "exitKilled = 137"

text \<open>
  Go errors: \<^verbatim>\<open>*Error\<close> of this package (\<^verbatim>\<open>ExitCode\<close>, \<^verbatim>\<open>Err\<close>), or any other error,
  kept by its message.
\<close>

datatype error = OtherError string | Error (ExitCode: int) (Err: error)

datatype exitType = exitTypeNormal | exitTypeTimedOut | exitTypeKilled

text \<open>The iota value of an \<^verbatim>\<open>exitType\<close> constant.\<close>

fun exitType_iota :: "exitType \<Rightarrow> nat" where
  "exitType_iota exitTypeNormal = 0"
| "exitType_iota exitTypeTimedOut = 1"
| "exitType_iota exitTypeKilled = 2"

record ExitStatus =
  Code :: int
  Signaled :: bool
  "typ" :: exitType

text \<open>The zero value \<^verbatim>\<open>ExitStatus{}\<close>.\<close>

definition ExitStatus_zero :: ExitStatus where
  "ExitStatus_zero = \<lparr>Code = 0, Signaled = False, typ = exitTypeNormal\<rparr>"

definition IsTimedOut :: "ExitStatus \<Rightarrow> bool" where
  "IsTimedOut ex = (typ ex = exitTypeTimedOut \<or> typ ex = exitTypeKilled)"

definition IsKilled :: "ExitStatus \<Rightarrow> bool" where
  "IsKilled ex = (typ ex = exitTypeKilled)"

definition GetExitCode :: "ExitStatus \<Rightarrow> int" where
  "GetExitCode ex =
     (if IsKilled ex then exitKilled
      else if IsTimedOut ex then exitTimedOut
      else Code ex)"

definition GetChildExitCode :: "ExitStatus \<Rightarrow> int" where
  "GetChildExitCode ex = Code ex"

text \<open>\<^verbatim>\<open>func (tio *Timeout) signal()\<close>, with the platform name the package was started on.\<close>

definition signal :: "string \<Rightarrow> Timeout \<Rightarrow> os_Signal" where
  "signal GOOS tio = (case Signal tio of None \<Rightarrow> defaultSignal GOOS | Some s \<Rightarrow> s)"

fun getExitCodeFromErr :: "error option \<Rightarrow> int" where
  "getExitCodeFromErr (Some (Error code e)) = code"
| "getExitCodeFromErr (Some (OtherError m)) = - 1"
| "getExitCodeFromErr None = exitNormal"

section \<open>The environment of one invocation\<close>

text \<open>
  \<^verbatim>\<open>syscall.WaitStatus\<close> is a 32-bit status word. The functions of the collaborators
  (\<^verbatim>\<open>wrapcommander.WaitStatusToExitCode\<close>, \<^verbatim>\<open>wrapcommander.ResolveExitCode\<close>,
  \<^verbatim>\<open>wrapcommander.ErrorToWaitStatus\<close> with its ok flag, and the method
  \<^verbatim>\<open>WaitStatus.Signaled\<close>) are outside this repository: they are parameters.
\<close>

type_synonym WaitStatus = "32 word"

record collaborators =
  WaitStatusToExitCode :: "WaitStatus \<Rightarrow> int"
  WaitStatus_Signaled :: "WaitStatus \<Rightarrow> bool"
  ResolveExitCode :: "error \<Rightarrow> int"
  ErrorToWaitStatus :: "error option \<Rightarrow> WaitStatus \<times> bool"

text \<open>
  What \<^verbatim>\<open>recv.Interface()\<close> holds after a receive: a \<^verbatim>\<open>syscall.WaitStatus\<close>, the
  \<^verbatim>\<open>time.Time\<close> of a timer, or a value of some other dynamic type.
\<close>

datatype recv_value = WaitStatusValue WaitStatus | TimeValue | OtherValue

text \<open>
  One return of \<^verbatim>\<open>reflect.Select(cases)\<close>, as the environment decides it: the moment
  it returns (nanoseconds since the loop was entered), the index chosen and the value
  received.
\<close>

record selected =
  at :: int
  chosen :: nat
  recv :: recv_value

text \<open>
  The channels of the select cases. \<^verbatim>\<open>getExitChan\<close> gives the channel on which the
  wait status arrives once the child has exited; when that happens is up to the child.
  \<^verbatim>\<open>time.After(d)\<close> gives a channel that holds one value from \<open>d\<close> nanoseconds on
  (at once when \<open>d \<le> 0\<close>) until it is received, and none afterwards.
\<close>

datatype chan = ExitChan | TimerChan (deadline: int) (received: bool)

definition time_After :: "64 word \<Rightarrow> chan" where
  "time_After d = TimerChan (sint d) False"

fun can_proceed :: "int \<Rightarrow> chan \<Rightarrow> bool" where
  "can_proceed t ExitChan = True"
| "can_proceed t (TimerChan d r) = (\<not> r \<and> d \<le> t)"

fun receive :: "chan \<Rightarrow> chan" where
  "receive ExitChan = ExitChan"
| "receive (TimerChan d r) = TimerChan d True"

text \<open>
  \<^verbatim>\<open>reflect.Select\<close> returns one of the cases that can proceed at the moment it
  returns, never before it was called (\<open>t\<close>). An outcome it cannot produce gives
  \<open>None\<close>; otherwise the channels after the receive.
\<close>

definition reflect_Select :: "chan list \<Rightarrow> int \<Rightarrow> selected \<Rightarrow> chan list option" where
  "reflect_Select cs t s =
     (if chosen s < length cs \<and> t \<le> at s \<and> can_proceed (at s) (cs ! chosen s)
      then Some (cs[chosen s := receive (cs ! chosen s)])
      else None)"

text \<open>
  \<^verbatim>\<open>getExitChan\<close>: the value its goroutine sends on the process-exit channel, given the
  error (or nil) that \<^verbatim>\<open>cmd.Wait()\<close> returned. The ok flag of \<^verbatim>\<open>ErrorToWaitStatus\<close> is
  dropped, so a wait status is sent whether or not the error could be classified.
  \<^verbatim>\<open>reflect_Select\<close> leaves the value received to the environment; on the process-exit
  case the program receives what \<^verbatim>\<open>getExitChan\<close> sent.
\<close>

definition getExitChan :: "collaborators \<Rightarrow> error option \<Rightarrow> recv_value" where
  "getExitChan p err = WaitStatusValue (fst (ErrorToWaitStatus p err))"

section \<open>The escalation loop\<close>

text \<open>
  The calls the loop makes on the child: \<^verbatim>\<open>tio.terminate()\<close>, \<^verbatim>\<open>tio.killall()\<close> and
  \<^verbatim>\<open>cmd.Process.Kill()\<close>, recorded in the order they are made.
\<close>

datatype call = terminate | killall | Process_Kill

record loop_state =
  cases :: "chan list"
  clock :: int
  ex :: ExitStatus
  calls :: "call list"

text \<open>The state in which \<^verbatim>\<open>handleTimeout\<close> reaches its \<^verbatim>\<open>for\<close> loop.\<close>

definition loop_entry :: "Timeout \<Rightarrow> loop_state" where
  "loop_entry tio =
     \<lparr>cases = [ExitChan, time_After (Duration tio)] @
              (if 0 <s KillAfter tio then [time_After (Duration tio + KillAfter tio)] else []),
      clock = 0,
      ex = ExitStatus_zero,
      calls = []\<rparr>"

text \<open>
  Where the loop stands after a list of select outcomes: it has returned (the state holds
  the \<^verbatim>\<open>ExitStatus\<close> returned), it is blocked in \<^verbatim>\<open>reflect.Select\<close> waiting for the next
  event, or the list held an outcome \<^verbatim>\<open>reflect.Select\<close> cannot produce.
\<close>

datatype progress = Returned loop_state | Waiting loop_state | Refused

fun loop :: "collaborators \<Rightarrow> loop_state \<Rightarrow> selected list \<Rightarrow> progress" where
  "loop p st [] = Waiting st"
| "loop p st (s # sels) =
     (case reflect_Select (cases st) (clock st) s of
        None \<Rightarrow> Refused
      | Some cs \<Rightarrow>
          if chosen s = 0 then
            Returned (st\<lparr>cases := cs, clock := at s,
              ex := (case recv s of
                       WaitStatusValue w \<Rightarrow>
                         (ex st)\<lparr>Code := WaitStatusToExitCode p w,
                                 Signaled := WaitStatus_Signaled p w\<rparr>
                     | _ \<Rightarrow> ex st)\<rparr>)
          else if chosen s = 1 then
            loop p (st\<lparr>cases := cs, clock := at s,
                       ex := (ex st)\<lparr>typ := exitTypeTimedOut\<rparr>,
                       calls := calls st @ [terminate]\<rparr>) sels
          else if chosen s = 2 then
            loop p (st\<lparr>cases := cs, clock := at s,
                       ex := (ex st)\<lparr>typ := exitTypeKilled\<rparr>,
                       calls := calls st @ [killall, Process_Kill]\<rparr>) sels
          else loop p (st\<lparr>cases := cs, clock := at s\<rparr>) sels)"

definition handleTimeout :: "collaborators \<Rightarrow> Timeout \<Rightarrow> selected list \<Rightarrow> progress" where
  "handleTimeout p tio sels = loop p (loop_entry tio) sels"

text \<open>The values sent on the channel that \<^verbatim>\<open>RunCommand\<close> returns, and its receive.\<close>

fun delivered :: "progress \<Rightarrow> ExitStatus list" where
  "delivered (Returned st) = [ex st]"
| "delivered (Waiting st) = []"
| "delivered Refused = []"

fun chan_recv :: "progress \<Rightarrow> ExitStatus option" where
  "chan_recv (Returned st) = Some (ex st)"
| "chan_recv (Waiting st) = None"
| "chan_recv Refused = None"

section \<open>Spawn and the facades\<close>

text \<open>
  What the environment supplies to one invocation: the errors (or nil) of
  \<^verbatim>\<open>cmd.StdoutPipe()\<close>, \<^verbatim>\<open>cmd.StderrPipe()\<close> and \<^verbatim>\<open>cmd.Start()\<close>, the select outcomes of
  the loop, and what the child wrote to the two buffers of \<^verbatim>\<open>Run\<close>.
\<close>

record environment =
  StdoutPipe_err :: "error option"
  StderrPipe_err :: "error option"
  Start_err :: "error option"
  selects :: "selected list"
  outBuffer :: string
  errBuffer :: string

text \<open>
  \<^verbatim>\<open>RunCommand\<close>: the channel (the progress of the goroutine that sends
  \<^verbatim>\<open>tio.handleTimeout()\<close> on it) or nil, and the error or nil.
\<close>

definition RunCommand ::
  "collaborators \<Rightarrow> Timeout \<Rightarrow> environment \<Rightarrow> progress option \<times> error option" where
  "RunCommand p tio env =
     (case Start_err env of
        Some err \<Rightarrow> (None, Some (Error (ResolveExitCode p err) err))
      | None \<Rightarrow> (Some (handleTimeout p tio (selects env)), None))"

text \<open>
  The two facades. \<open>None\<close>: the call does not return on these select outcomes (the
  receive from the channel blocks).
\<close>

definition Run ::
  "collaborators \<Rightarrow> Timeout \<Rightarrow> environment \<Rightarrow>
   (ExitStatus \<times> string \<times> string \<times> error option) option" where
  "Run p tio env =
     (case RunCommand p tio env of
        (_, Some err) \<Rightarrow> Some (ExitStatus_zero, outBuffer env, errBuffer env, Some err)
      | (None, None) \<Rightarrow> None
      | (Some ch, None) \<Rightarrow>
          (case chan_recv ch of
             None \<Rightarrow> None
           | Some exitSt \<Rightarrow> Some (exitSt, outBuffer env, errBuffer env, None)))"

definition RunSimple :: "collaborators \<Rightarrow> Timeout \<Rightarrow> environment \<Rightarrow> bool \<Rightarrow> int option" where
  "RunSimple p tio env preserveStatus =
     (case StdoutPipe_err env of
        Some err \<Rightarrow> Some exitUnknownErr
      | None \<Rightarrow>
     (case StderrPipe_err env of
        Some err \<Rightarrow> Some exitUnknownErr
      | None \<Rightarrow>
     (case RunCommand p tio env of
        (_, Some err) \<Rightarrow> Some (getExitCodeFromErr (Some err))
      | (None, None) \<Rightarrow> None
      | (Some ch, None) \<Rightarrow>
          (case chan_recv ch of
             None \<Rightarrow> None
           | Some exitSt \<Rightarrow>
               Some (if preserveStatus then GetChildExitCode exitSt
                     else GetExitCode exitSt)))))"

section \<open>Auxiliary definitions\<close>

text \<open>
  The phase a run stands in: the \<^verbatim>\<open>typ\<close> of the exit status held by the loop, or returned.
\<close>

fun phase :: "progress \<Rightarrow> exitType option" where
  "phase (Returned st) = Some (typ (ex st))"
| "phase (Waiting st) = Some (typ (ex st))"
| "phase Refused = None"

text \<open>
  One concrete choice of the collaborators, for evaluating the model on concrete runs: the
  exit code is read from bits 8 to 15 of the wait status, no status counts as signaled, a
  command that cannot be started resolves to 127, and of the errors of \<^verbatim>\<open>cmd.Wait()\<close>
  only \<^verbatim>\<open>exit status 3\<close> is classified (as the status 768); for nil and for any other
  error the zero status comes back with the ok flag false.
\<close>

definition sample_collaborators :: collaborators where
  "sample_collaborators =
     \<lparr>WaitStatusToExitCode = (\<lambda>w. uint (drop_bit 8 w) mod 256),
      WaitStatus_Signaled = (\<lambda>w. False),
      ResolveExitCode = (\<lambda>e. 127),
      ErrorToWaitStatus =
        (\<lambda>e. if e = Some (OtherError ''exit status 3'') then (768, True) else (0, False))\<rparr>"

text \<open>
  The invariant of the loop while it waits, after the select outcomes \<open>sels\<close>: the cases
  are those built at entry, a timer channel is drained exactly when its index was chosen,
  each call was made once per choice of its case, code and signaled flag are untouched,
  and the phase is the one set by the last outcome.
\<close>

definition loop_inv :: "Timeout \<Rightarrow> selected list \<Rightarrow> loop_state \<Rightarrow> bool" where
  "loop_inv tio sels st \<longleftrightarrow>
     cases st = [ExitChan, TimerChan (sint (Duration tio)) (1 \<in> chosen ` set sels)] @
                (if 0 <s KillAfter tio
                 then [TimerChan (sint (Duration tio + KillAfter tio)) (2 \<in> chosen ` set sels)]
                 else [])
   \<and> (2 \<in> chosen ` set sels \<longrightarrow> 0 <s KillAfter tio)
   \<and> chosen ` set sels \<subseteq> {1, 2}
   \<and> count_list (map chosen sels) 1 \<le> 1
   \<and> count_list (map chosen sels) 2 \<le> 1
   \<and> count_list (calls st) terminate = count_list (map chosen sels) 1
   \<and> count_list (calls st) killall = count_list (map chosen sels) 2
   \<and> count_list (calls st) Process_Kill = count_list (map chosen sels) 2
   \<and> Code (ex st) = 0 \<and> Signaled (ex st) = False
   \<and> typ (ex st) = (if sels = [] then exitTypeNormal
                     else if chosen (last sels) = 1 then exitTypeTimedOut else exitTypeKilled)
   \<and> clock st = (if sels = [] then 0 else at (last sels))"

section \<open>The exit classifier\<close>

text \<open>
  C2. \<^verbatim>\<open>GetExitCode\<close> depends on the phase and the code only: 137 when the phase is
  Killed, else 124 when it is TimedOut, else the child's own code.
\<close>

theorem GetExitCode_by_phase:
  "GetExitCode e =
     (if typ e = exitTypeKilled then 137
      else if typ e = exitTypeTimedOut then 124
      else Code e)"
  by (simp add: GetExitCode_def IsKilled_def IsTimedOut_def exitKilled_def exitTimedOut_def)

text \<open>
  C10. An exit status that \<^verbatim>\<open>IsKilled\<close> accepts is accepted by \<^verbatim>\<open>IsTimedOut\<close> too.
\<close>

theorem IsKilled_imp_IsTimedOut: "IsKilled e \<Longrightarrow> IsTimedOut e"
  by (simp add: IsKilled_def IsTimedOut_def)

theorem IsKilled_imp_IsTimedOut_witness:
  "IsKilled \<lparr>Code = 0, Signaled = True, typ = exitTypeKilled\<rparr>
   \<and> IsTimedOut \<lparr>Code = 0, Signaled = True, typ = exitTypeKilled\<rparr>"
proof -
  have k: "IsKilled \<lparr>Code = 0, Signaled = True, typ = exitTypeKilled\<rparr>"
    by (simp add: IsKilled_def)
  from k IsKilled_imp_IsTimedOut [OF k] show ?thesis by simp
qed

section \<open>Facts about the loop\<close>

lemma loop_append:
  "loop p st (xs @ ys) = (case loop p st xs of Waiting st' \<Rightarrow> loop p st' ys | Returned st' \<Rightarrow> Returned st' | Refused \<Rightarrow> Refused)"
  by (induction xs arbitrary: st) (auto split: option.splits)

lemma loop_inv_entry: "loop_inv tio [] (loop_entry tio)"
  by (simp add: loop_inv_def loop_entry_def time_After_def ExitStatus_zero_def)

lemma loop_inv_step:
  assumes inv: "loop_inv tio sels st" and w: "loop p st [s] = Waiting st'"
  shows "loop_inv tio (sels @ [s]) st'"
proof -
  consider (exit) "chosen s = 0" | (timeout) "chosen s = 1" | (kill) "chosen s = 2"
    | (none) "3 \<le> chosen s"
    by linarith
  then show ?thesis
  proof cases
    case exit
    with w show ?thesis by (simp split: option.splits)
  next
    case timeout
    with inv w show ?thesis
      by (cases "0 <s KillAfter tio")
         (auto simp: loop_inv_def reflect_Select_def count_list_0_iff image_iff
               split: option.splits if_splits)
  next
    case kill
    with inv w show ?thesis
      by (cases "0 <s KillAfter tio")
         (auto simp: loop_inv_def reflect_Select_def count_list_0_iff image_iff numeral_2_eq_2
               split: option.splits if_splits)
  next
    case none
    with inv w show ?thesis
      by (cases "0 <s KillAfter tio")
         (auto simp: loop_inv_def reflect_Select_def split: option.splits if_splits)
  qed
qed

lemma handleTimeout_Waiting_inv:
  "handleTimeout p tio sels = Waiting st \<Longrightarrow> loop_inv tio sels st"
proof (induction sels arbitrary: st rule: rev_induct)
  case Nil
  then show ?case using loop_inv_entry [of tio] by (auto simp: handleTimeout_def)
next
  case (snoc s sels)
  from snoc.prems obtain st0 where
    w0: "handleTimeout p tio sels = Waiting st0" and step: "loop p st0 [s] = Waiting st"
    by (auto simp: handleTimeout_def loop_append split: progress.splits)
  from snoc.IH [OF w0] step show ?case by (rule loop_inv_step)
qed


lemma loop_step_Returned:
  assumes "loop p st [s] = Returned st'"
  shows "chosen s = 0 \<and> clock st \<le> at s \<and> calls st' = calls st \<and> typ (ex st') = typ (ex st)"
  using assms
  by (auto simp: reflect_Select_def split: option.splits if_splits recv_value.splits)

lemma loop_step_Returned_ex:
  assumes "loop p st [s] = Returned st'"
  shows "ex st' = (case recv s of
                     WaitStatusValue w \<Rightarrow>
                       (ex st)\<lparr>Code := WaitStatusToExitCode p w,
                               Signaled := WaitStatus_Signaled p w\<rparr>
                   | _ \<Rightarrow> ex st)"
  using assms
  by (auto simp: reflect_Select_def split: option.splits if_splits)

lemma handleTimeout_step:
  "handleTimeout p tio sels = Waiting st \<Longrightarrow> handleTimeout p tio (sels @ [s]) = loop p st [s]"
  using loop_append [of p "loop_entry tio" sels "[s]"] by (simp add: handleTimeout_def)

lemma loop_step_exit:
  assumes "loop_inv tio sels st" and "chosen s = 0" and "clock st \<le> at s"
  shows "\<exists>st'. loop p st [s] = Returned st'"
  using assms by (simp add: loop_inv_def reflect_Select_def)

lemma loop_step_Waiting:
  assumes inv: "loop_inv tio sels st" and w: "loop p st [s] = Waiting st'"
  shows "(chosen s = 1 \<or> chosen s = 2) \<and> chosen s \<notin> chosen ` set sels"
proof -
  consider (exit) "chosen s = 0" | (timeout) "chosen s = 1" | (kill) "chosen s = 2"
    | (none) "3 \<le> chosen s"
    by linarith
  then show ?thesis
  proof cases
    case exit
    with w show ?thesis by (simp split: option.splits)
  next
    case timeout
    with inv w show ?thesis
      by (auto simp: loop_inv_def reflect_Select_def split: option.splits if_splits)
  next
    case kill
    with inv w show ?thesis
      by (cases "0 <s KillAfter tio")
         (auto simp: loop_inv_def reflect_Select_def numeral_2_eq_2 split: option.splits if_splits)
  next
    case none
    with inv w show ?thesis
      by (cases "0 <s KillAfter tio")
         (auto simp: loop_inv_def reflect_Select_def split: option.splits if_splits)
  qed
qed

lemma handleTimeout_snoc:
  "handleTimeout p tio sels = Waiting st \<Longrightarrow>
   handleTimeout p tio (sels @ s # rest) =
     (case loop p st [s] of Waiting st' \<Rightarrow> loop p st' rest | Returned st' \<Rightarrow> Returned st' | Refused \<Rightarrow> Refused)"
  using loop_append [of p "loop_entry tio" sels "s # rest"] loop_append [of p st "[s]" rest]
  by (simp add: handleTimeout_def)

lemma loop_Returned_split:
  "loop p st0 sels = Returned st' \<Longrightarrow>
   \<exists>pre s rest st. sels = pre @ s # rest \<and> loop p st0 pre = Waiting st
                  \<and> loop p st [s] = Returned st'"
proof (induction sels arbitrary: st0)
  case Nil
  then show ?case by simp
next
  case (Cons x xs)
  show ?case
  proof (cases "loop p st0 [x]")
    case (Returned st1)
    with Cons.prems have "st1 = st'"
      by (auto split: option.splits if_splits)
    with Returned have "x # xs = [] @ x # xs \<and> loop p st0 [] = Waiting st0
        \<and> loop p st0 [x] = Returned st'" by simp
    then show ?thesis by blast
  next
    case (Waiting st1)
    with Cons.prems have r: "loop p st1 xs = Returned st'"
      using loop_append [of p st0 "[x]" xs] by simp
    from Cons.IH [OF r] obtain pre s rest st where
      d: "xs = pre @ s # rest" "loop p st1 pre = Waiting st" "loop p st [s] = Returned st'"
      by blast
    from Waiting d(2) have "loop p st0 (x # pre) = Waiting st"
      using loop_append [of p st0 "[x]" pre] by simp
    with d(1,3) have "x # xs = (x # pre) @ s # rest \<and> loop p st0 (x # pre) = Waiting st
        \<and> loop p st [s] = Returned st'" by simp
    then show ?thesis by blast
  next
    case Refused
    with Cons.prems show ?thesis
      using loop_append [of p st0 "[x]" xs] by simp
  qed
qed


section \<open>The escalation loop: events and signals\<close>

text \<open>
  C3. While the loop waits, the timeout case and the kill-after case have each been chosen
  at most once, \<^verbatim>\<open>terminate\<close> and \<^verbatim>\<open>killall\<close> have been called exactly as often, a
  timeout case that was chosen once cannot be chosen again, and the return on the
  process-exit case makes no further call.
\<close>

theorem escalation_events_at_most_once:
  assumes "handleTimeout p tio sels = Waiting st"
  shows "count_list (map chosen sels) 1 \<le> 1
       \<and> count_list (map chosen sels) 2 \<le> 1
       \<and> count_list (calls st) terminate = count_list (map chosen sels) 1
       \<and> count_list (calls st) killall = count_list (map chosen sels) 2
       \<and> (1 \<in> chosen ` set sels \<and> chosen s = 1 \<longrightarrow>
            handleTimeout p tio (sels @ [s]) = Refused)
       \<and> (\<forall>st'. handleTimeout p tio (sels @ [s]) = Returned st' \<longrightarrow> calls st' = calls st)"
proof -
  from assms have inv: "loop_inv tio sels st" by (rule handleTimeout_Waiting_inv)
  have step: "handleTimeout p tio (sels @ [s]) = loop p st [s]"
    using handleTimeout_snoc [OF assms, of s "[]"] by (simp split: progress.splits)
  have again: "handleTimeout p tio (sels @ [s]) = Refused"
    if "1 \<in> chosen ` set sels" "chosen s = 1"
    using inv that unfolding step
    by (simp add: loop_inv_def reflect_Select_def)
  have ret: "calls st' = calls st" if "handleTimeout p tio (sels @ [s]) = Returned st'" for st'
    using that loop_step_Returned [of p st s st'] unfolding step by simp
  from inv again ret show ?thesis by (simp add: loop_inv_def)
qed


theorem escalation_events_at_most_once_witness:
  "handleTimeout sample_collaborators
     \<lparr>Duration = 5, KillAfter = 3, Signal = None, Foreground = False\<rparr>
     [\<lparr>at = 5, chosen = 1, recv = TimeValue\<rparr>] =
   Waiting \<lparr>cases = [ExitChan, TimerChan 5 True, TimerChan 8 False], clock = 5,
            ex = \<lparr>Code = 0, Signaled = False, typ = exitTypeTimedOut\<rparr>,
            calls = [terminate]\<rparr>
   \<and> handleTimeout sample_collaborators
       \<lparr>Duration = 5, KillAfter = 3, Signal = None, Foreground = False\<rparr>
       ([\<lparr>at = 5, chosen = 1, recv = TimeValue\<rparr>] @ [\<lparr>at = 6, chosen = 1, recv = TimeValue\<rparr>]) =
     Refused"
proof -
  have h: "handleTimeout sample_collaborators
     \<lparr>Duration = 5, KillAfter = 3, Signal = None, Foreground = False\<rparr>
     [\<lparr>at = 5, chosen = 1, recv = TimeValue\<rparr>] =
   Waiting \<lparr>cases = [ExitChan, TimerChan 5 True, TimerChan 8 False], clock = 5,
            ex = \<lparr>Code = 0, Signaled = False, typ = exitTypeTimedOut\<rparr>,
            calls = [terminate]\<rparr>"
    by (simp add: handleTimeout_def loop_entry_def reflect_Select_def time_After_def
        ExitStatus_zero_def word_sless_alt)
  from escalation_events_at_most_once [OF h, of "\<lparr>at = 6, chosen = 1, recv = TimeValue\<rparr>"] h
  show ?thesis by simp
qed

section \<open>Signal policy\<close>

text \<open>
  C8. With no \<^verbatim>\<open>Signal\<close> configured, \<^verbatim>\<open>signal()\<close> gives the default chosen by
  \<^verbatim>\<open>init\<close>: \<^verbatim>\<open>os.Interrupt\<close> on Windows and \<^verbatim>\<open>SIGTERM\<close> on any other platform; a
  configured signal is given back unchanged.
\<close>

theorem signal_default_or_configured:
  "(Signal tio = None \<longrightarrow>
      signal ''windows'' tio = os_Interrupt
      \<and> (GOOS \<noteq> ''windows'' \<longrightarrow> signal GOOS tio = SIGTERM))
   \<and> (Signal tio = Some s \<longrightarrow> signal GOOS tio = s)"
  by (simp add: signal_def defaultSignal_def)

theorem signal_default_or_configured_witness:
  "signal ''windows'' \<lparr>Duration = 1, KillAfter = 0, Signal = None, Foreground = False\<rparr>
     = os_Interrupt
   \<and> signal ''linux'' \<lparr>Duration = 1, KillAfter = 0, Signal = None, Foreground = False\<rparr>
     = SIGTERM
   \<and> signal ''linux'' \<lparr>Duration = 1, KillAfter = 0, Signal = Some SIGKILL, Foreground = False\<rparr>
     = SIGKILL"
  using signal_default_or_configured
          [of "\<lparr>Duration = 1, KillAfter = 0, Signal = None, Foreground = False\<rparr>"
              "''linux''" SIGKILL]
        signal_default_or_configured
          [of "\<lparr>Duration = 1, KillAfter = 0, Signal = Some SIGKILL, Foreground = False\<rparr>"
              "''linux''" SIGKILL]
  by simp

section \<open>Spawn failure and the facades\<close>

text \<open>
  C6. When \<^verbatim>\<open>cmd.Start()\<close> fails, \<^verbatim>\<open>RunCommand\<close> returns a nil channel and an
  \<^verbatim>\<open>*Error\<close> whose \<^verbatim>\<open>ExitCode\<close> is \<^verbatim>\<open>ResolveExitCode(err)\<close>; no select outcome is
  consumed (the result is the same for every list of outcomes), and \<^verbatim>\<open>Run\<close> returns
  that error with the zero \<^verbatim>\<open>ExitStatus\<close>.
\<close>

theorem spawn_failure_short_circuits:
  assumes "Start_err env = Some err"
  shows "RunCommand p tio env = (None, Some (Error (ResolveExitCode p err) err))
       \<and> Run p tio env =
           Some (\<lparr>Code = 0, Signaled = False, typ = exitTypeNormal\<rparr>,
                 outBuffer env, errBuffer env, Some (Error (ResolveExitCode p err) err))
       \<and> RunCommand p tio (env\<lparr>selects := sels\<rparr>) = RunCommand p tio env"
  using assms by (simp add: RunCommand_def Run_def ExitStatus_zero_def)

theorem spawn_failure_short_circuits_witness:
  "Start_err \<lparr>StdoutPipe_err = None, StderrPipe_err = None,
              Start_err = Some (OtherError ''no such file''),
              selects = [\<lparr>at = 0, chosen = 0, recv = WaitStatusValue 0\<rparr>],
              outBuffer = [], errBuffer = []\<rparr> = Some (OtherError ''no such file'')
   \<and> Run sample_collaborators \<lparr>Duration = 1, KillAfter = 0, Signal = None, Foreground = False\<rparr>
       \<lparr>StdoutPipe_err = None, StderrPipe_err = None,
        Start_err = Some (OtherError ''no such file''),
        selects = [\<lparr>at = 0, chosen = 0, recv = WaitStatusValue 0\<rparr>],
        outBuffer = [], errBuffer = []\<rparr>
     = Some (\<lparr>Code = 0, Signaled = False, typ = exitTypeNormal\<rparr>, [], [],
             Some (Error 127 (OtherError ''no such file'')))"
proof -
  have h: "Start_err \<lparr>StdoutPipe_err = None, StderrPipe_err = None,
              Start_err = Some (OtherError ''no such file''),
              selects = [\<lparr>at = 0, chosen = 0, recv = WaitStatusValue 0\<rparr>],
              outBuffer = [], errBuffer = []\<rparr> = Some (OtherError ''no such file'')"
    by simp
  from spawn_failure_short_circuits [OF h, of sample_collaborators
         "\<lparr>Duration = 1, KillAfter = 0, Signal = None, Foreground = False\<rparr>" "[]"]
  show ?thesis by (simp add: sample_collaborators_def)
qed

text \<open>
  C7. When both pipes open and the channel of \<^verbatim>\<open>RunCommand\<close> delivers an exit status,
  \<^verbatim>\<open>RunSimple(true)\<close> returns \<^verbatim>\<open>GetChildExitCode()\<close>, which is the \<^verbatim>\<open>Code\<close> field
  whatever the phase, and \<^verbatim>\<open>RunSimple(false)\<close> returns \<^verbatim>\<open>GetExitCode()\<close>.
\<close>

theorem RunSimple_preserveStatus:
  assumes "StdoutPipe_err env = None" and "StderrPipe_err env = None"
    and "RunCommand p tio env = (Some ch, None)" and "delivered ch = [exitSt]"
  shows "RunSimple p tio env True = Some (GetChildExitCode exitSt)
       \<and> GetChildExitCode exitSt = Code exitSt
       \<and> RunSimple p tio env False = Some (GetExitCode exitSt)"
  using assms
  by (cases ch) (simp_all add: RunSimple_def GetChildExitCode_def)


theorem RunSimple_preserveStatus_witness:
  "RunSimple sample_collaborators
     \<lparr>Duration = 5, KillAfter = 0, Signal = None, Foreground = False\<rparr>
     \<lparr>StdoutPipe_err = None, StderrPipe_err = None, Start_err = None,
      selects = [\<lparr>at = 5, chosen = 1, recv = TimeValue\<rparr>,
                 \<lparr>at = 7, chosen = 0, recv = WaitStatusValue 768\<rparr>],
      outBuffer = [], errBuffer = []\<rparr> True = Some 3
   \<and> RunSimple sample_collaborators
     \<lparr>Duration = 5, KillAfter = 0, Signal = None, Foreground = False\<rparr>
     \<lparr>StdoutPipe_err = None, StderrPipe_err = None, Start_err = None,
      selects = [\<lparr>at = 5, chosen = 1, recv = TimeValue\<rparr>,
                 \<lparr>at = 7, chosen = 0, recv = WaitStatusValue 768\<rparr>],
      outBuffer = [], errBuffer = []\<rparr> False = Some 124"
proof -
  let ?env = "\<lparr>StdoutPipe_err = None, StderrPipe_err = None, Start_err = None,
      selects = [\<lparr>at = 5, chosen = 1, recv = TimeValue\<rparr>,
                 \<lparr>at = 7, chosen = 0, recv = WaitStatusValue 768\<rparr>],
      outBuffer = [], errBuffer = []\<rparr>"
  let ?tio = "\<lparr>Duration = 5, KillAfter = 0, Signal = None, Foreground = False\<rparr>"
  let ?st = "\<lparr>cases = [ExitChan, TimerChan 5 True], clock = 7,
            ex = \<lparr>Code = 3, Signaled = False, typ = exitTypeTimedOut\<rparr>,
            calls = [terminate]\<rparr>"
  have a: "StdoutPipe_err ?env = None" and b: "StderrPipe_err ?env = None" by simp_all
  have c: "RunCommand sample_collaborators ?tio ?env = (Some (Returned ?st), None)"
    by (simp add: RunCommand_def handleTimeout_def loop_entry_def reflect_Select_def
        time_After_def ExitStatus_zero_def word_sless_alt sample_collaborators_def)
  have d: "delivered (Returned ?st) = [\<lparr>Code = 3, Signaled = False, typ = exitTypeTimedOut\<rparr>]"
    by simp
  from RunSimple_preserveStatus [OF a b c d]
  show ?thesis
    by (simp add: GetChildExitCode_def GetExitCode_def IsKilled_def IsTimedOut_def
        exitTimedOut_def)
qed


section \<open>The escalation loop: phases\<close>

text \<open>
  C1 says that the phase never moves backward and that after the kill-after event only
  the process-exit event is awaited. The code breaks it on the run below. With
  \<^verbatim>\<open>Duration = 0\<close> and \<^verbatim>\<open>KillAfter = 1\<close> both timers have expired one nanosecond after
  entry; \<^verbatim>\<open>reflect.Select\<close> chooses the kill-after case first, so \<^verbatim>\<open>killall\<close> and
  \<^verbatim>\<open>Process.Kill\<close> are called and the phase is Killed; the timeout case, still among the
  cases, is chosen next, \<^verbatim>\<open>terminate\<close> is called and the phase is set back to TimedOut.
  The status returned on the process-exit event then has \<^verbatim>\<open>IsKilled\<close> false and exit code
  124 although the child was killed by force, while the same three events in timer order
  give Killed and 137.
\<close>

theorem kill_before_timeout_reports_TimedOut:
  "phase (handleTimeout sample_collaborators
            \<lparr>Duration = 0, KillAfter = 1, Signal = None, Foreground = False\<rparr>
            [\<lparr>at = 1, chosen = 2, recv = TimeValue\<rparr>]) = Some exitTypeKilled
   \<and> phase (handleTimeout sample_collaborators
            \<lparr>Duration = 0, KillAfter = 1, Signal = None, Foreground = False\<rparr>
            [\<lparr>at = 1, chosen = 2, recv = TimeValue\<rparr>,
             \<lparr>at = 1, chosen = 1, recv = TimeValue\<rparr>]) = Some exitTypeTimedOut
   \<and> \<not> exitType_iota exitTypeKilled \<le> exitType_iota exitTypeTimedOut
   \<and> handleTimeout sample_collaborators
            \<lparr>Duration = 0, KillAfter = 1, Signal = None, Foreground = False\<rparr>
            [\<lparr>at = 1, chosen = 2, recv = TimeValue\<rparr>,
             \<lparr>at = 1, chosen = 1, recv = TimeValue\<rparr>,
             \<lparr>at = 9, chosen = 0, recv = WaitStatusValue 768\<rparr>]
       = Returned \<lparr>cases = [ExitChan, TimerChan 0 True, TimerChan 1 True], clock = 9,
                   ex = \<lparr>Code = 3, Signaled = False, typ = exitTypeTimedOut\<rparr>,
                   calls = [killall, Process_Kill, terminate]\<rparr>
   \<and> \<not> IsKilled \<lparr>Code = 3, Signaled = False, typ = exitTypeTimedOut\<rparr>
   \<and> GetExitCode \<lparr>Code = 3, Signaled = False, typ = exitTypeTimedOut\<rparr> = 124
   \<and> handleTimeout sample_collaborators
            \<lparr>Duration = 0, KillAfter = 1, Signal = None, Foreground = False\<rparr>
            [\<lparr>at = 1, chosen = 1, recv = TimeValue\<rparr>,
             \<lparr>at = 1, chosen = 2, recv = TimeValue\<rparr>,
             \<lparr>at = 9, chosen = 0, recv = WaitStatusValue 768\<rparr>]
       = Returned \<lparr>cases = [ExitChan, TimerChan 0 True, TimerChan 1 True], clock = 9,
                   ex = \<lparr>Code = 3, Signaled = False, typ = exitTypeKilled\<rparr>,
                   calls = [terminate, killall, Process_Kill]\<rparr>
   \<and> GetExitCode \<lparr>Code = 3, Signaled = False, typ = exitTypeKilled\<rparr> = 137"
  by (simp add: handleTimeout_def loop_entry_def reflect_Select_def time_After_def
      ExitStatus_zero_def word_sless_alt sample_collaborators_def
      IsKilled_def IsTimedOut_def GetExitCode_def exitTimedOut_def exitKilled_def)

section \<open>The escalation loop without a kill-after period\<close>

text \<open>
  C4. With \<^verbatim>\<open>KillAfter = 0\<close> the loop has two cases only, the kill-after case is never
  chosen, \<^verbatim>\<open>killall\<close> and \<^verbatim>\<open>Process.Kill\<close> are never called, the phase is never Killed,
  \<^verbatim>\<open>terminate\<close> is called at most once, and after it was called the only possible
  outcome is the process-exit case, on which the loop returns without a further call.
\<close>

theorem no_kill_without_KillAfter:
  assumes "KillAfter tio = 0" and "handleTimeout p tio sels = Waiting st"
  shows "length (cases st) = 2
       \<and> 2 \<notin> chosen ` set sels
       \<and> killall \<notin> set (calls st) \<and> Process_Kill \<notin> set (calls st)
       \<and> typ (ex st) \<noteq> exitTypeKilled
       \<and> count_list (calls st) terminate \<le> 1
       \<and> (chosen s = 2 \<longrightarrow> handleTimeout p tio (sels @ [s]) = Refused)
       \<and> (terminate \<in> set (calls st) \<and> chosen s \<noteq> 0 \<longrightarrow>
            handleTimeout p tio (sels @ [s]) = Refused)
       \<and> (\<forall>st'. handleTimeout p tio (sels @ [s]) = Returned st' \<longrightarrow>
            chosen s = 0 \<and> typ (ex st') \<noteq> exitTypeKilled \<and> calls st' = calls st)"
proof -
  from assms(2) have inv: "loop_inv tio sels st" by (rule handleTimeout_Waiting_inv)
  note step = handleTimeout_step [OF assms(2), of s]
  from assms(1) have off: "\<not> 0 <s KillAfter tio" by simp
  from inv off have len: "length (cases st) = 2" and no2: "2 \<notin> chosen ` set sels"
    by (auto simp: loop_inv_def)
  from inv no2 have sub: "chosen ` set sels \<subseteq> {1}" by (auto simp: loop_inv_def)
  from no2 have "count_list (map chosen sels) 2 = 0" by (simp add: count_list_0_iff)
  with inv have nk: "killall \<notin> set (calls st)" "Process_Kill \<notin> set (calls st)"
    by (simp_all add: loop_inv_def count_list_0_iff)
  have nK: "typ (ex st) \<noteq> exitTypeKilled"
  proof (cases "sels = []")
    case True
    with inv show ?thesis by (simp add: loop_inv_def)
  next
    case False
    then have "chosen (last sels) \<in> chosen ` set sels" by simp
    with sub have "chosen (last sels) = 1" by auto
    with inv False show ?thesis by (simp add: loop_inv_def)
  qed
  from inv have once: "count_list (calls st) terminate \<le> 1" by (simp add: loop_inv_def)
  have r2: "handleTimeout p tio (sels @ [s]) = Refused" if "chosen s = 2"
    using inv off that unfolding step by (simp add: loop_inv_def reflect_Select_def)
  have r1: "handleTimeout p tio (sels @ [s]) = Refused"
    if t: "terminate \<in> set (calls st)" and c: "chosen s \<noteq> 0"
  proof -
    from t have "count_list (calls st) terminate \<noteq> 0" by (simp add: count_list_0_iff)
    with inv have "count_list (map chosen sels) 1 \<noteq> 0" by (simp add: loop_inv_def)
    then have in1: "1 \<in> chosen ` set sels" by (simp add: count_list_0_iff)
    show ?thesis
    proof (cases "loop p st [s]")
      case (Returned st')
      from loop_step_Returned [OF Returned] c show ?thesis by blast
    next
      case (Waiting st')
      from loop_step_Waiting [OF inv Waiting] in1 r2 Waiting show ?thesis
        by (auto simp: step)
    next
      case Refused
      then show ?thesis by (simp add: step)
    qed
  qed
  have ret: "chosen s = 0 \<and> typ (ex st') \<noteq> exitTypeKilled \<and> calls st' = calls st"
    if r: "handleTimeout p tio (sels @ [s]) = Returned st'" for st'
  proof -
    from r have "loop p st [s] = Returned st'" unfolding step .
    from loop_step_Returned [OF this] nK show ?thesis by simp
  qed
  from len no2 nk nK once r2 r1 ret show ?thesis by blast
qed


theorem no_kill_without_KillAfter_witness:
  "KillAfter \<lparr>Duration = 5, KillAfter = 0, Signal = None, Foreground = False\<rparr> = 0
   \<and> handleTimeout sample_collaborators
       \<lparr>Duration = 5, KillAfter = 0, Signal = None, Foreground = False\<rparr>
       [\<lparr>at = 5, chosen = 1, recv = TimeValue\<rparr>] =
     Waiting \<lparr>cases = [ExitChan, TimerChan 5 True], clock = 5,
              ex = \<lparr>Code = 0, Signaled = False, typ = exitTypeTimedOut\<rparr>,
              calls = [terminate]\<rparr>
   \<and> handleTimeout sample_collaborators
       \<lparr>Duration = 5, KillAfter = 0, Signal = None, Foreground = False\<rparr>
       ([\<lparr>at = 5, chosen = 1, recv = TimeValue\<rparr>] @ [\<lparr>at = 9, chosen = 2, recv = TimeValue\<rparr>]) =
     Refused"
proof -
  let ?tio = "\<lparr>Duration = 5, KillAfter = 0, Signal = None, Foreground = False\<rparr>"
  have k: "KillAfter ?tio = 0" by simp
  have h: "handleTimeout sample_collaborators ?tio [\<lparr>at = 5, chosen = 1, recv = TimeValue\<rparr>] =
     Waiting \<lparr>cases = [ExitChan, TimerChan 5 True], clock = 5,
              ex = \<lparr>Code = 0, Signaled = False, typ = exitTypeTimedOut\<rparr>,
              calls = [terminate]\<rparr>"
    by (simp add: handleTimeout_def loop_entry_def reflect_Select_def time_After_def
        ExitStatus_zero_def word_sless_alt)
  from no_kill_without_KillAfter [OF k h, of "\<lparr>at = 9, chosen = 2, recv = TimeValue\<rparr>"] k h
  show ?thesis by simp
qed

section \<open>Delivery of the exit status\<close>

text \<open>
  C5. After a successful spawn \<^verbatim>\<open>RunCommand\<close> returns a channel and no error; the channel
  delivers at most one \<^verbatim>\<open>ExitStatus\<close>, and exactly one precisely when the select
  outcomes hold a process-exit case after any run of escalation events that left the loop
  waiting.
\<close>

theorem one_ExitStatus_per_invocation:
  assumes "Start_err env = None"
  shows "\<exists>ch. RunCommand p tio env = (Some ch, None)
            \<and> length (delivered ch) \<le> 1
            \<and> (length (delivered ch) = 1 \<longleftrightarrow>
                 (\<exists>pre s rest st. selects env = pre @ s # rest
                    \<and> handleTimeout p tio pre = Waiting st
                    \<and> chosen s = 0 \<and> clock st \<le> at s))"
proof -
  let ?ch = "handleTimeout p tio (selects env)"
  from assms have rc: "RunCommand p tio env = (Some ?ch, None)"
    by (simp add: RunCommand_def)
  have le: "length (delivered ?ch) \<le> 1" by (cases ?ch) simp_all
  have one: "length (delivered ?ch) = 1 \<longleftrightarrow> (\<exists>st'. ?ch = Returned st')"
    by (cases ?ch) simp_all
  have "(\<exists>st'. ?ch = Returned st') \<longleftrightarrow>
        (\<exists>pre s rest st. selects env = pre @ s # rest
            \<and> handleTimeout p tio pre = Waiting st \<and> chosen s = 0 \<and> clock st \<le> at s)"
  proof
    assume "\<exists>st'. ?ch = Returned st'"
    then obtain st' where "loop p (loop_entry tio) (selects env) = Returned st'"
      by (auto simp: handleTimeout_def)
    from loop_Returned_split [OF this] obtain pre s rest st where
      d: "selects env = pre @ s # rest" "loop p (loop_entry tio) pre = Waiting st"
         "loop p st [s] = Returned st'" by blast
    from loop_step_Returned [OF d(3)] d(1,2)
    show "\<exists>pre s rest st. selects env = pre @ s # rest
            \<and> handleTimeout p tio pre = Waiting st \<and> chosen s = 0 \<and> clock st \<le> at s"
      unfolding handleTimeout_def by blast
  next
    assume "\<exists>pre s rest st. selects env = pre @ s # rest
            \<and> handleTimeout p tio pre = Waiting st \<and> chosen s = 0 \<and> clock st \<le> at s"
    then obtain pre s rest st where
      d: "selects env = pre @ s # rest" "handleTimeout p tio pre = Waiting st"
         "chosen s = 0" "clock st \<le> at s" by blast
    from d(2) have inv: "loop_inv tio pre st" by (rule handleTimeout_Waiting_inv)
    from loop_step_exit [OF inv d(3,4)] obtain st' where r: "loop p st [s] = Returned st'"
      by blast
    from handleTimeout_snoc [OF d(2), of s rest] r d(1)
    show "\<exists>st'. ?ch = Returned st'" by simp
  qed
  with rc le one show ?thesis by simp
qed

theorem one_ExitStatus_per_invocation_witness:
  "RunCommand sample_collaborators
     \<lparr>Duration = 5, KillAfter = 3, Signal = None, Foreground = False\<rparr>
     \<lparr>StdoutPipe_err = None, StderrPipe_err = None, Start_err = None,
      selects = [\<lparr>at = 5, chosen = 1, recv = TimeValue\<rparr>,
                 \<lparr>at = 8, chosen = 2, recv = TimeValue\<rparr>,
                 \<lparr>at = 9, chosen = 0, recv = WaitStatusValue 9\<rparr>],
      outBuffer = [], errBuffer = []\<rparr> =
   (Some (Returned \<lparr>cases = [ExitChan, TimerChan 5 True, TimerChan 8 True], clock = 9,
            ex = \<lparr>Code = 0, Signaled = False, typ = exitTypeKilled\<rparr>,
            calls = [terminate, killall, Process_Kill]\<rparr>), None)
   \<and> delivered (Returned \<lparr>cases = [ExitChan, TimerChan 5 True, TimerChan 8 True], clock = 9,
            ex = \<lparr>Code = 0, Signaled = False, typ = exitTypeKilled\<rparr>,
            calls = [terminate, killall, Process_Kill]\<rparr>) =
       [\<lparr>Code = 0, Signaled = False, typ = exitTypeKilled\<rparr>]"
proof -
  let ?env = "\<lparr>StdoutPipe_err = None, StderrPipe_err = None, Start_err = None,
      selects = [\<lparr>at = 5, chosen = 1, recv = TimeValue\<rparr>,
                 \<lparr>at = 8, chosen = 2, recv = TimeValue\<rparr>,
                 \<lparr>at = 9, chosen = 0, recv = WaitStatusValue 9\<rparr>],
      outBuffer = [], errBuffer = []\<rparr>"
  have h: "Start_err ?env = None" by simp
  have e: "RunCommand sample_collaborators
     \<lparr>Duration = 5, KillAfter = 3, Signal = None, Foreground = False\<rparr> ?env =
   (Some (Returned \<lparr>cases = [ExitChan, TimerChan 5 True, TimerChan 8 True], clock = 9,
            ex = \<lparr>Code = 0, Signaled = False, typ = exitTypeKilled\<rparr>,
            calls = [terminate, killall, Process_Kill]\<rparr>), None)"
    by (simp add: RunCommand_def handleTimeout_def loop_entry_def reflect_Select_def
        time_After_def ExitStatus_zero_def word_sless_alt sample_collaborators_def)
  from one_ExitStatus_per_invocation [OF h, of sample_collaborators
         "\<lparr>Duration = 5, KillAfter = 3, Signal = None, Foreground = False\<rparr>"] e
  show ?thesis by simp
qed

text \<open>
  C9. When \<^verbatim>\<open>ErrorToWaitStatus\<close> cannot classify the error of \<^verbatim>\<open>cmd.Wait()\<close> (ok flag
  false) and gives the zero status, \<^verbatim>\<open>getExitChan\<close> sends that status all the same and
  the loop returns on the process-exit case: the status returned has the code and the
  signaled flag that the collaborators read from the zero status, so \<^verbatim>\<open>Code\<close> 0 and
  \<^verbatim>\<open>Signaled\<close> false when they read it as a plain exit with code 0; the phase reached is
  kept, and \<^verbatim>\<open>Run\<close> returns the status with a nil error.
\<close>

theorem unclassified_wait_result:
  assumes "handleTimeout p tio pre = Waiting st" and "chosen s = 0" and "clock st \<le> at s"
    and "ErrorToWaitStatus p wait_err = (0, False)"
    and "recv s = getExitChan p wait_err"
    and "WaitStatusToExitCode p 0 = 0" and "\<not> WaitStatus_Signaled p 0"
    and "Start_err env = None" and "selects env = pre @ s # rest"
  shows "\<exists>st'. handleTimeout p tio (pre @ s # rest) = Returned st'
            \<and> ex st' = (ex st)\<lparr>Code := WaitStatusToExitCode p 0,
                                Signaled := WaitStatus_Signaled p 0\<rparr>
            \<and> Code (ex st') = 0 \<and> Signaled (ex st') = False \<and> typ (ex st') = typ (ex st)
            \<and> Run p tio env = Some (ex st', outBuffer env, errBuffer env, None)"
proof -
  from assms(1) have inv: "loop_inv tio pre st" by (rule handleTimeout_Waiting_inv)
  from loop_step_exit [OF inv assms(2,3)] obtain st' where r: "loop p st [s] = Returned st'"
    by blast
  from handleTimeout_snoc [OF assms(1), of s rest] r
  have ret: "handleTimeout p tio (pre @ s # rest) = Returned st'" by simp
  from assms(4,5) have sent: "recv s = WaitStatusValue 0" by (simp add: getExitChan_def)
  from loop_step_Returned_ex [OF r] sent
  have e: "ex st' = (ex st)\<lparr>Code := WaitStatusToExitCode p 0,
                             Signaled := WaitStatus_Signaled p 0\<rparr>" by simp
  with assms(6,7)
  have z: "Code (ex st') = 0" "Signaled (ex st') = False" "typ (ex st') = typ (ex st)"
    by simp_all
  from ret assms(8,9) have "Run p tio env = Some (ex st', outBuffer env, errBuffer env, None)"
    by (simp add: Run_def RunCommand_def)
  with ret e z show ?thesis by blast
qed

theorem unclassified_wait_result_witness:
  "ErrorToWaitStatus sample_collaborators (Some (OtherError ''wait: no child processes''))
     = (0, False)
   \<and> getExitChan sample_collaborators (Some (OtherError ''wait: no child processes''))
     = WaitStatusValue 0
   \<and> handleTimeout sample_collaborators
     \<lparr>Duration = 5, KillAfter = 3, Signal = None, Foreground = False\<rparr>
     ([\<lparr>at = 5, chosen = 1, recv = TimeValue\<rparr>] @
      \<lparr>at = 6, chosen = 0, recv = WaitStatusValue 0\<rparr> # []) =
   Returned \<lparr>cases = [ExitChan, TimerChan 5 True, TimerChan 8 False], clock = 6,
            ex = \<lparr>Code = 0, Signaled = False, typ = exitTypeTimedOut\<rparr>,
            calls = [terminate]\<rparr>
   \<and> Run sample_collaborators
     \<lparr>Duration = 5, KillAfter = 3, Signal = None, Foreground = False\<rparr>
     \<lparr>StdoutPipe_err = None, StderrPipe_err = None, Start_err = None,
      selects = [\<lparr>at = 5, chosen = 1, recv = TimeValue\<rparr>] @
                \<lparr>at = 6, chosen = 0, recv = WaitStatusValue 0\<rparr> # [],
      outBuffer = ''out'', errBuffer = []\<rparr> =
     Some (\<lparr>Code = 0, Signaled = False, typ = exitTypeTimedOut\<rparr>, ''out'', [], None)"
proof -
  let ?tio = "\<lparr>Duration = 5, KillAfter = 3, Signal = None, Foreground = False\<rparr>"
  let ?err = "Some (OtherError ''wait: no child processes'')"
  let ?s = "\<lparr>at = 6, chosen = 0, recv = WaitStatusValue 0\<rparr>"
  let ?env = "\<lparr>StdoutPipe_err = None, StderrPipe_err = None, Start_err = None,
      selects = [\<lparr>at = 5, chosen = 1, recv = TimeValue\<rparr>] @ ?s # [],
      outBuffer = ''out'', errBuffer = []\<rparr>"
  let ?st = "\<lparr>cases = [ExitChan, TimerChan 5 True, TimerChan 8 False], clock = 5,
            ex = \<lparr>Code = 0, Signaled = False, typ = exitTypeTimedOut\<rparr>,
            calls = [terminate]\<rparr>"
  have h: "handleTimeout sample_collaborators ?tio [\<lparr>at = 5, chosen = 1, recv = TimeValue\<rparr>] =
           Waiting ?st"
    by (simp add: handleTimeout_def loop_entry_def reflect_Select_def time_After_def
        ExitStatus_zero_def word_sless_alt)
  have u: "ErrorToWaitStatus sample_collaborators ?err = (0, False)"
    by (simp add: sample_collaborators_def)
  have sent: "getExitChan sample_collaborators ?err = WaitStatusValue 0"
    by (simp add: getExitChan_def sample_collaborators_def)
  then have g: "recv ?s = getExitChan sample_collaborators ?err" by simp
  have zc: "WaitStatusToExitCode sample_collaborators 0 = 0"
    and zs: "\<not> WaitStatus_Signaled sample_collaborators 0"
    by (simp_all add: sample_collaborators_def)
  have c: "chosen ?s = 0" and t: "clock ?st \<le> at ?s"
    and e: "Start_err ?env = None"
    and l: "selects ?env = [\<lparr>at = 5, chosen = 1, recv = TimeValue\<rparr>] @ ?s # []"
    by simp_all
  from unclassified_wait_result [OF h c t u g zc zs e l] u sent
  show ?thesis
    by (simp add: handleTimeout_def loop_entry_def reflect_Select_def time_After_def
        ExitStatus_zero_def word_sless_alt Run_def RunCommand_def)
qed

end
